theory Spec2Isabelle
  imports Main "HOL-Library.Word"
begin

section \<open>Wired-accessory switch monitor (droid-extevdev.c)\<close>

text \<open>
  A shallow embedding of \<^verbatim>\<open>src/droid/droid-extevdev.c\<close>. The monitor owns three switch
  bits and two handles; everything it reaches through pointers and library calls (the
  card's port table, the mainloop, libevdev, the file system) is made explicit: the port
  table and the chronological list of external calls form the \<open>world\<close> that every
  operation takes and returns, and the answers of the library calls are inputs.
\<close>

subsection \<open>Constants of the system headers\<close>

text \<open>
  The macros below come from \<^verbatim>\<open>errno.h\<close>, \<^verbatim>\<open>limits.h\<close>, \<^verbatim>\<open>linux/input-event-codes.h\<close>
  and \<^verbatim>\<open>libevdev.h\<close>; they are integer constants of C type \<^verbatim>\<open>int\<close>.
\<close>

definition EAGAIN :: int where "EAGAIN = 11"
definition PATH_MAX :: nat where "PATH_MAX = 4096"

definition EV_SYN :: int where "EV_SYN = 0"
definition EV_SW :: int where "EV_SW = 5"
definition SYN_REPORT :: int where "SYN_REPORT = 0"
definition SYN_DROPPED :: int where "SYN_DROPPED = 3"
definition SW_HEADPHONE_INSERT :: int where "SW_HEADPHONE_INSERT = 2"
definition SW_MICROPHONE_INSERT :: int where "SW_MICROPHONE_INSERT = 4"
definition SW_LINEOUT_INSERT :: int where "SW_LINEOUT_INSERT = 6"

definition LIBEVDEV_READ_STATUS_SUCCESS :: int where "LIBEVDEV_READ_STATUS_SUCCESS = 0"
definition LIBEVDEV_READ_STATUS_SYNC :: int where "LIBEVDEV_READ_STATUS_SYNC = 1"

definition DEV_INPUT_EVENT :: string where "DEV_INPUT_EVENT = ''/dev/input''"
definition EVENT_DEV_NAME :: string where "EVENT_DEV_NAME = ''event''"

subsection \<open>Data\<close>

text \<open>\<^verbatim>\<open>enum libevdev_read_flag\<close>, restricted to the two values the callback assigns.\<close>

datatype libevdev_read_flag = LIBEVDEV_READ_FLAG_SYNC | LIBEVDEV_READ_FLAG_NORMAL

text \<open>\<^verbatim>\<open>pa_available_t\<close>.\<close>

datatype pa_available = PA_AVAILABLE_UNKNOWN | PA_AVAILABLE_NO | PA_AVAILABLE_YES

text \<open>
  \<^verbatim>\<open>struct input_event\<close> without its time stamp: \<open>type\<close> and \<open>code\<close> are \<^verbatim>\<open>__u16\<close>,
  \<open>value\<close> is \<^verbatim>\<open>__s32\<close>.
\<close>

record input_event =
  ev_type :: "16 word"
  ev_code :: "16 word"
  ev_value :: "32 word"

text \<open>
  What the monitor can observe of a \<^verbatim>\<open>struct libevdev\<close>: the descriptor it was built on
  and, for every supported (type, code) pair, the cached current value.
\<close>

record libevdev =
  dev_fd :: int
  dev_values :: "((int \<times> int) \<times> 32 word) list"

text \<open>A registration handed out by the mainloop's \<^verbatim>\<open>io_new\<close>, for a descriptor.\<close>

datatype pa_io_event = Io_event int

text \<open>
  \<^verbatim>\<open>struct pa_droid_extevdev\<close>. A \<^verbatim>\<open>NULL\<close> pointer is \<open>None\<close>. The \<^verbatim>\<open>card\<close> pointer is not
  a field here: the one thing reached through it, \<^verbatim>\<open>card->ports\<close>, is the \<open>ports\<close>
  component of the world. The three one-bit \<^verbatim>\<open>bool\<close> bit-fields are booleans.
\<close>

record pa_droid_extevdev =
  evdev_dev :: "libevdev option"
  event :: "pa_io_event option"
  sw_headphone_insert :: bool
  sw_microphone_insert :: bool
  sw_lineout_insert :: bool

text \<open>
  The external calls the trace records, oldest first. \<open>Notify_ports\<close> records a run of
  \<^verbatim>\<open>notify_ports\<close> together with the two availability values it computes; every other
  entry is a call into a library or into the host.
\<close>

datatype call =
    Open string int
  | Close int
  | Libevdev_new_from_fd int
  | Libevdev_free libevdev
  | Io_new int
  | Io_free pa_io_event
  | Libevdev_fetch_event_value int int
  | Libevdev_next_event libevdev_read_flag
  | Notify_ports pa_available pa_available
  | Set_available string pa_available
  | Free_namelist "string list"
  | Xfree

record world =
  ports :: "string \<rightharpoonup> pa_available"
  calls :: "call list"

subsection \<open>Port notification\<close>

definition headphone_ports :: "string list" where
  "headphone_ports = [''output-wired_headphone'']"

definition headset_ports :: "string list" where
  "headset_ports = [''output-wired_headset'', ''input-wired_headset'']"

text \<open>
  \<^verbatim>\<open>pa_device_port_set_available(p, status)\<close> for the port registered under \<open>name\<close>:
  the port's availability becomes \<open>status\<close>.
\<close>

definition pa_device_port_set_available :: "string \<Rightarrow> pa_available \<Rightarrow> world \<Rightarrow> world" where
  "pa_device_port_set_available name status w =
     w\<lparr>ports := (ports w)(name \<mapsto> status), calls := calls w @ [Set_available name status]\<rparr>"

text \<open>
  One of the two \<^verbatim>\<open>for\<close> loops of \<^verbatim>\<open>notify_ports\<close>: each name is looked up with
  \<^verbatim>\<open>pa_hashmap_get\<close>, and a name that is not in the table is passed over.
\<close>

fun set_ports_available :: "string list \<Rightarrow> pa_available \<Rightarrow> world \<Rightarrow> world" where
  "set_ports_available [] status w = w"
| "set_ports_available (name # names) status w =
     set_ports_available names status
       (case ports w name of
          None \<Rightarrow> w
        | Some p \<Rightarrow> pa_device_port_set_available name status w)"

definition has_headphone :: "pa_droid_extevdev \<Rightarrow> pa_available" where
  "has_headphone u =
     (if (sw_headphone_insert u \<or> sw_lineout_insert u) \<and> \<not> sw_microphone_insert u
      then PA_AVAILABLE_YES else PA_AVAILABLE_NO)"

definition has_headset :: "pa_droid_extevdev \<Rightarrow> pa_available" where
  "has_headset u =
     (if (sw_headphone_insert u \<or> sw_lineout_insert u) \<and> sw_microphone_insert u
      then PA_AVAILABLE_YES else PA_AVAILABLE_NO)"

definition notify_ports :: "pa_droid_extevdev \<Rightarrow> world \<Rightarrow> world" where
  "notify_ports u w =
     (let w0 = w\<lparr>calls := calls w @ [Notify_ports (has_headphone u) (has_headset u)]\<rparr>;
          w1 = set_ports_available headphone_ports (has_headphone u) w0
      in set_ports_available headset_ports (has_headset u) w1)"

subsection \<open>The readiness callback\<close>

text \<open>
  What one call of \<^verbatim>\<open>libevdev_next_event\<close> hands back: the return code and the event
  written to \<^verbatim>\<open>ev\<close>. The device is a script of such outcomes, consumed front to back;
  once the script is used up nothing is buffered and every further read answers
  \<^verbatim>\<open>-EAGAIN\<close> (the callback does not look at \<^verbatim>\<open>ev\<close> then).
\<close>

type_synonym read_result = "int \<times> input_event"

definition libevdev_next_event :: "read_result list \<Rightarrow> read_result \<times> read_result list" where
  "libevdev_next_event q =
     (case q of
        [] \<Rightarrow> ((- EAGAIN, \<lparr>ev_type = 0, ev_code = 0, ev_value = 0\<rparr>), [])
      | r # q' \<Rightarrow> (r, q'))"

text \<open>
  Lines 182 to 200, the part of the loop body that looks at the event. The comparisons
  are made after integer promotion, hence \<open>uint\<close>; storing the \<^verbatim>\<open>__s32\<close> value into a
  \<^verbatim>\<open>bool\<close> bit-field converts it to \<^verbatim>\<open>_Bool\<close>, which is true for every nonzero value.
\<close>

definition process_event ::
  "input_event \<Rightarrow> pa_droid_extevdev \<Rightarrow> world \<Rightarrow> pa_droid_extevdev \<times> world" where
  "process_event ev u w =
     (if uint (ev_type ev) = EV_SW then
        (if uint (ev_code ev) = SW_HEADPHONE_INSERT then
           (u\<lparr>sw_headphone_insert := (ev_value ev \<noteq> 0)\<rparr>, w)
         else if uint (ev_code ev) = SW_MICROPHONE_INSERT then
           (u\<lparr>sw_microphone_insert := (ev_value ev \<noteq> 0)\<rparr>, w)
         else if uint (ev_code ev) = SW_LINEOUT_INSERT then
           (u\<lparr>sw_lineout_insert := (ev_value ev \<noteq> 0)\<rparr>, w)
         else (u, w))
      else if uint (ev_type ev) = EV_SYN \<and> uint (ev_code ev) = SYN_REPORT then
        (u, notify_ports u w)
      else (u, w))"

text \<open>
  The \<^verbatim>\<open>while (1)\<close> loop of \<^verbatim>\<open>evdev_cb\<close>, with the local \<^verbatim>\<open>flags\<close> as a parameter. Every
  read is recorded with the flag it is made with. The result is what is left of the
  script when the loop is left by \<^verbatim>\<open>break\<close>, the monitor and the world. Logging is not
  modelled. The loop ends for every script: a read either consumes an entry of the
  script or, on the exhausted script, leaves sync mode or leaves the loop.
\<close>

function evdev_cb_loop ::
  "libevdev_read_flag \<Rightarrow> read_result list \<Rightarrow> pa_droid_extevdev \<Rightarrow> world \<Rightarrow>
     read_result list \<times> pa_droid_extevdev \<times> world" where
  "evdev_cb_loop flags q u w =
     (case libevdev_next_event q of ((err, ev), q') \<Rightarrow>
        (let w1 = w\<lparr>calls := calls w @ [Libevdev_next_event flags]\<rparr> in
         if err = - EAGAIN then
           (if flags = LIBEVDEV_READ_FLAG_SYNC
            then evdev_cb_loop LIBEVDEV_READ_FLAG_NORMAL q' u w1
            else (q', u, w1))
         else if err = LIBEVDEV_READ_STATUS_SYNC then
           (if flags = LIBEVDEV_READ_FLAG_NORMAL
            then evdev_cb_loop LIBEVDEV_READ_FLAG_SYNC q' u w1
            else (case process_event ev u w1 of (u', w') \<Rightarrow> evdev_cb_loop flags q' u' w'))
         else if err < 0 then (q', u, w1)
         else (case process_event ev u w1 of (u', w') \<Rightarrow> evdev_cb_loop flags q' u' w')))"
  by pat_completeness auto
termination
  by (relation "measure (\<lambda>(flags, q, u, w).
        2 * length q + (if flags = LIBEVDEV_READ_FLAG_SYNC then 1 else 0))")
     (auto simp: libevdev_next_event_def EAGAIN_def LIBEVDEV_READ_STATUS_SYNC_def
           split: list.splits)

text \<open>
  \<^verbatim>\<open>evdev_cb\<close> starts the loop in normal mode; it does not use its parameters \<^verbatim>\<open>a\<close>, \<^verbatim>\<open>e\<close>,
  \<^verbatim>\<open>fd\<close> and \<^verbatim>\<open>events\<close>.
\<close>

definition evdev_cb ::
  "read_result list \<Rightarrow> pa_droid_extevdev \<Rightarrow> world \<Rightarrow>
     read_result list \<times> pa_droid_extevdev \<times> world" where
  "evdev_cb q u w = evdev_cb_loop LIBEVDEV_READ_FLAG_NORMAL q u w"

subsection \<open>Initial synchronisation\<close>

text \<open>
  The ways a call can go wrong instead of returning: a failed \<^verbatim>\<open>pa_assert_se\<close>, a use of
  a \<^verbatim>\<open>NULL\<close> decoding context, and \<^verbatim>\<open>free\<close> called on a pointer that was never assigned
  (undefined behaviour).
\<close>

datatype error = Assertion_failed | Null_pointer | Unassigned_free

definition libevdev_has_event_code :: "libevdev \<Rightarrow> int \<Rightarrow> int \<Rightarrow> bool" where
  "libevdev_has_event_code dev type code = (map_of (dev_values dev) (type, code) \<noteq> None)"

text \<open>
  \<^verbatim>\<open>libevdev_fetch_event_value\<close>: \<open>Some v\<close> stands for the return value 1 with \<open>v\<close>
  stored through the pointer, \<open>None\<close> for the return value 0.
\<close>

definition libevdev_fetch_event_value :: "libevdev \<Rightarrow> int \<Rightarrow> int \<Rightarrow> 32 word option" where
  "libevdev_fetch_event_value dev type code = map_of (dev_values dev) (type, code)"

definition libevdev_get_fd :: "libevdev \<Rightarrow> int" where
  "libevdev_get_fd dev = dev_fd dev"

text \<open>The macro \<^verbatim>\<open>INIT_SW\<close>: the value to store in the bit-field, and the call made.\<close>

definition INIT_SW :: "libevdev \<Rightarrow> int \<Rightarrow> world \<Rightarrow> bool \<times> world" where
  "INIT_SW dev code w =
     (let w' = w\<lparr>calls := calls w @ [Libevdev_fetch_event_value EV_SW code]\<rparr>
      in case libevdev_fetch_event_value dev EV_SW code of
           Some v \<Rightarrow> (v \<noteq> 0, w')
         | None \<Rightarrow> (False, w'))"

definition read_initial_switch_values ::
  "pa_droid_extevdev \<Rightarrow> world \<Rightarrow> error + pa_droid_extevdev \<times> world" where
  "read_initial_switch_values u w =
     (case evdev_dev u of
        None \<Rightarrow> Inl Null_pointer
      | Some dev \<Rightarrow>
          (case INIT_SW dev SW_HEADPHONE_INSERT w of (b1, w1) \<Rightarrow>
           case INIT_SW dev SW_MICROPHONE_INSERT w1 of (b2, w2) \<Rightarrow>
           case INIT_SW dev SW_LINEOUT_INSERT w2 of (b3, w3) \<Rightarrow>
             (let u' = u\<lparr>sw_headphone_insert := b1, sw_microphone_insert := b2,
                        sw_lineout_insert := b3\<rparr>
              in Inr (u', notify_ports u' w3))))"

subsection \<open>Device selection\<close>

text \<open>
  The answers of the system to the selector and to the constructor: the names in
  \<^verbatim>\<open>/dev/input\<close> (\<open>None\<close> when the directory cannot be read and \<^verbatim>\<open>scandir\<close> returns -1),
  the order \<^verbatim>\<open>versionsort\<close> puts a list of names in, the descriptor \<^verbatim>\<open>open\<close> returns for a
  path (negative on failure), the outcome of \<^verbatim>\<open>libevdev_new_from_fd\<close> (\<open>Inl e\<close> for the
  negative return value \<open>- e\<close>), and the handle \<^verbatim>\<open>io_new\<close> returns. A descriptor number
  is free again once it is closed, and the selector closes every descriptor it rejects
  before it opens the next file: the same number can stand for different devices in one
  run. The outcome of \<^verbatim>\<open>libevdev_new_from_fd\<close> is therefore given for the path the
  descriptor was opened on together with the descriptor.
\<close>

record env =
  dir_entries :: "string list option"
  versionsort :: "string list \<Rightarrow> string list"
  open_nonblock :: "string \<Rightarrow> int"
  libevdev_new_from_fd :: "string \<Rightarrow> int \<Rightarrow> int + libevdev"
  io_new :: "int \<Rightarrow> pa_io_event option"

definition is_event_device :: "string \<Rightarrow> bool" where
  "is_event_device d_name = (take 5 EVENT_DEV_NAME = take 5 d_name)"

definition scandir :: "env \<Rightarrow> (string \<Rightarrow> bool) \<Rightarrow> string list option" where
  "scandir e flt =
     (case dir_entries e of
        None \<Rightarrow> None
      | Some names \<Rightarrow> Some (versionsort e (filter flt names)))"

text \<open>The first \<^verbatim>\<open>for\<close> loop of \<^verbatim>\<open>find_switch_evdev\<close>, over the names still to be examined.\<close>

fun find_switch_evdev_loop ::
  "env \<Rightarrow> string list \<Rightarrow> world \<Rightarrow> libevdev option \<times> world" where
  "find_switch_evdev_loop e [] w = (None, w)"
| "find_switch_evdev_loop e (d_name # rest) w =
     (let fname = take (PATH_MAX - 1) (DEV_INPUT_EVENT @ ''/'' @ d_name);
          fd = open_nonblock e fname;
          w1 = w\<lparr>calls := calls w @ [Open fname fd]\<rparr>
      in if fd < 0 then find_switch_evdev_loop e rest w1
         else
           (let w2 = w1\<lparr>calls := calls w1 @ [Libevdev_new_from_fd fd]\<rparr>
            in case libevdev_new_from_fd e fname fd of
                 Inl err \<Rightarrow>
                   find_switch_evdev_loop e rest (w2\<lparr>calls := calls w2 @ [Close fd]\<rparr>)
               | Inr dev \<Rightarrow>
                   if libevdev_has_event_code dev EV_SW SW_HEADPHONE_INSERT
                   then (Some dev, w2)
                   else find_switch_evdev_loop e rest
                          (w2\<lparr>calls := calls w2 @ [Libevdev_free dev, Close fd]\<rparr>)))"

text \<open>
  \<^verbatim>\<open>find_switch_evdev\<close>. After the first loop the entries of \<^verbatim>\<open>namelist\<close> and the array
  itself are released (lines 104 to 106). When \<^verbatim>\<open>scandir\<close> fails it returns -1 without
  assigning \<^verbatim>\<open>namelist\<close>, which has no initialiser: neither loop runs, and \<^verbatim>\<open>free\<close> is
  called on the unassigned pointer, so the call does not return a result.
\<close>

definition find_switch_evdev :: "env \<Rightarrow> world \<Rightarrow> (error + libevdev option) \<times> world" where
  "find_switch_evdev e w =
     (case scandir e is_event_device of
        None \<Rightarrow> (Inl Unassigned_free, w)
      | Some namelist \<Rightarrow>
          (case find_switch_evdev_loop e namelist w of
             (ret, w1) \<Rightarrow> (Inr ret, w1\<lparr>calls := calls w1 @ [Free_namelist namelist]\<rparr>)))"

subsection \<open>Creation and destruction\<close>

text \<open>
  \<^verbatim>\<open>pa_droid_extevdev_free\<close>: each of the two handles is released only when it is not
  \<^verbatim>\<open>NULL\<close>; the descriptor is read from the context before the context is released.
\<close>

definition pa_droid_extevdev_free :: "pa_droid_extevdev \<Rightarrow> world \<Rightarrow> world" where
  "pa_droid_extevdev_free u w =
     (let w1 = (case event u of
                  None \<Rightarrow> w
                | Some ev \<Rightarrow> w\<lparr>calls := calls w @ [Io_free ev]\<rparr>);
          w2 = (case evdev_dev u of
                  None \<Rightarrow> w1
                | Some dev \<Rightarrow>
                    (let fd = libevdev_get_fd dev
                     in w1\<lparr>calls := calls w1 @ [Libevdev_free dev, Close fd]\<rparr>))
      in w2\<lparr>calls := calls w2 @ [Xfree]\<rparr>)"

text \<open>\<^verbatim>\<open>pa_xnew0\<close>: every field zero.\<close>

definition pa_xnew0 :: pa_droid_extevdev where
  "pa_xnew0 = \<lparr>evdev_dev = None, event = None, sw_headphone_insert = False,
               sw_microphone_insert = False, sw_lineout_insert = False\<rparr>"

text \<open>
  \<^verbatim>\<open>pa_droid_extevdev_new\<close>. The result \<open>Inr None\<close> is the \<^verbatim>\<open>NULL\<close> return of the \<^verbatim>\<open>fail\<close>
  path; \<open>Inl Assertion_failed\<close> is the abort of \<^verbatim>\<open>pa_assert_se\<close> when \<^verbatim>\<open>io_new\<close> hands
  back \<^verbatim>\<open>NULL\<close>; an error of the selector ends the creation. The assertions on \<^verbatim>\<open>core\<close> and \<^verbatim>\<open>card\<close> hold by construction: the
  mainloop is part of the environment and the card's ports are part of the world.
\<close>

definition pa_droid_extevdev_new ::
  "env \<Rightarrow> world \<Rightarrow> (error + pa_droid_extevdev option) \<times> world" where
  "pa_droid_extevdev_new e w =
     (case find_switch_evdev e w of
        (Inl err, w1) \<Rightarrow> (Inl err, w1)
      | (Inr ret, w1) \<Rightarrow>
        (let u = pa_xnew0\<lparr>evdev_dev := ret\<rparr>
         in case ret of
              None \<Rightarrow> (Inr None, pa_droid_extevdev_free u w1)
            | Some dev \<Rightarrow>
                (let fd = libevdev_get_fd dev;
                     w2 = w1\<lparr>calls := calls w1 @ [Io_new fd]\<rparr>
                 in case io_new e fd of
                      None \<Rightarrow> (Inl Assertion_failed, w2)
                    | Some io \<Rightarrow>
                        (case read_initial_switch_values (u\<lparr>event := Some io\<rparr>) w2 of
                           Inl err \<Rightarrow> (Inl err, w2)
                         | Inr (u', w3) \<Rightarrow> (Inr (Some u'), w3)))))"

subsection \<open>Observations on traces\<close>

text \<open>The runs of \<^verbatim>\<open>notify_ports\<close> in a trace, oldest first, with their two decisions.\<close>

fun notify_runs :: "call list \<Rightarrow> (pa_available \<times> pa_available) list" where
  "notify_runs [] = []"
| "notify_runs (Notify_ports a b # cs) = (a, b) # notify_runs cs"
| "notify_runs (c # cs) = notify_runs cs"

text \<open>The registrations released through \<^verbatim>\<open>io_free\<close>, oldest first.\<close>

fun io_frees :: "call list \<Rightarrow> pa_io_event list" where
  "io_frees [] = []"
| "io_frees (Io_free io # cs) = io # io_frees cs"
| "io_frees (c # cs) = io_frees cs"

text \<open>
  The descriptors handed out by successful calls of \<^verbatim>\<open>open\<close>, the descriptors closed and
  the decoding contexts released, each oldest first.
\<close>

fun opened_fds :: "call list \<Rightarrow> int list" where
  "opened_fds [] = []"
| "opened_fds (Open fname fd # cs) = (if fd < 0 then opened_fds cs else fd # opened_fds cs)"
| "opened_fds (c # cs) = opened_fds cs"

fun closed_fds :: "call list \<Rightarrow> int list" where
  "closed_fds [] = []"
| "closed_fds (Close fd # cs) = fd # closed_fds cs"
| "closed_fds (c # cs) = closed_fds cs"

fun freed_devs :: "call list \<Rightarrow> libevdev list" where
  "freed_devs [] = []"
| "freed_devs (Libevdev_free dev # cs) = dev # freed_devs cs"
| "freed_devs (c # cs) = freed_devs cs"

subsection \<open>The selector, in the words of its specification\<close>

text \<open>
  The candidates are the names with the prefix, in the order of \<^verbatim>\<open>versionsort\<close>; there are
  none when the directory cannot be enumerated. A candidate has a path, a descriptor
  (negative when the path cannot be opened) and, when it opens and a decoding context can
  be built on the descriptor, a context; it qualifies when that context reports the headphone-insertion
  switch. The candidates before the first qualifying one are skipped; the examined ones
  are the skipped ones and the first qualifying one.
\<close>

definition candidates :: "env \<Rightarrow> string list" where
  "candidates e =
     (case dir_entries e of
        None \<Rightarrow> []
      | Some names \<Rightarrow> versionsort e (filter is_event_device names))"

definition candidate_path :: "string \<Rightarrow> string" where
  "candidate_path d_name = take (PATH_MAX - 1) (DEV_INPUT_EVENT @ ''/'' @ d_name)"

definition candidate_fd :: "env \<Rightarrow> string \<Rightarrow> int" where
  "candidate_fd e d_name = open_nonblock e (candidate_path d_name)"

definition candidate_dev :: "env \<Rightarrow> string \<Rightarrow> libevdev option" where
  "candidate_dev e d_name =
     (if candidate_fd e d_name < 0 then None
      else case libevdev_new_from_fd e (candidate_path d_name) (candidate_fd e d_name) of
             Inl err \<Rightarrow> None
           | Inr dev \<Rightarrow> Some dev)"

definition qualifies :: "env \<Rightarrow> string \<Rightarrow> bool" where
  "qualifies e d_name =
     (case candidate_dev e d_name of
        None \<Rightarrow> False
      | Some dev \<Rightarrow> libevdev_has_event_code dev EV_SW SW_HEADPHONE_INSERT)"

definition skipped :: "env \<Rightarrow> string list \<Rightarrow> string list" where
  "skipped e names = takeWhile (\<lambda>n. \<not> qualifies e n) names"

definition examined :: "env \<Rightarrow> string list \<Rightarrow> string list" where
  "examined e names = skipped e names @ take 1 (dropWhile (\<lambda>n. \<not> qualifies e n) names)"

subsection \<open>Creation, in the words of its specification\<close>

text \<open>
  The order the specification of the initial synchronisation asks for: the trace has
  reads of cached switch values, and none of them at or after the first registration.
\<close>

fun is_io_new :: "call \<Rightarrow> bool" where
  "is_io_new (Io_new fd) = True"
| "is_io_new c = False"

fun is_fetch :: "call \<Rightarrow> bool" where
  "is_fetch (Libevdev_fetch_event_value t c) = True"
| "is_fetch c = False"

definition initial_read_before_registration :: "call list \<Rightarrow> bool" where
  "initial_read_before_registration tr =
     (filter is_fetch tr \<noteq> [] \<and> filter is_fetch (dropWhile (\<lambda>c. \<not> is_io_new c) tr) = [])"

text \<open>
  The opposite order: the trace has a registration, and no read of a cached switch value
  before the first one.
\<close>

definition registration_before_initial_read :: "call list \<Rightarrow> bool" where
  "registration_before_initial_read tr =
     (filter is_io_new tr \<noteq> [] \<and> filter is_fetch (takeWhile (\<lambda>c. \<not> is_io_new c) tr) = [])"

text \<open>
  The value a switch bit takes from the decoding context: the cached value of its code
  read as a boolean, false when the device does not support the code. A monitor is
  synchronised with a device when its three bits have these values; the initial read
  makes three calls.
\<close>

definition cached_switch :: "libevdev \<Rightarrow> int \<Rightarrow> bool" where
  "cached_switch dev code =
     (case libevdev_fetch_event_value dev EV_SW code of
        Some v \<Rightarrow> v \<noteq> 0
      | None \<Rightarrow> False)"

definition synced :: "libevdev \<Rightarrow> pa_droid_extevdev \<Rightarrow> pa_droid_extevdev" where
  "synced dev u =
     u\<lparr>sw_headphone_insert := cached_switch dev SW_HEADPHONE_INSERT,
       sw_microphone_insert := cached_switch dev SW_MICROPHONE_INSERT,
       sw_lineout_insert := cached_switch dev SW_LINEOUT_INSERT\<rparr>"

definition initial_reads :: "call list" where
  "initial_reads =
     [Libevdev_fetch_event_value EV_SW SW_HEADPHONE_INSERT,
      Libevdev_fetch_event_value EV_SW SW_MICROPHONE_INSERT,
      Libevdev_fetch_event_value EV_SW SW_LINEOUT_INSERT]"

subsection \<open>Sample inputs\<close>

text \<open>An event of type \<^verbatim>\<open>EV_SW\<close> and an event of type \<^verbatim>\<open>EV_SYN\<close>.\<close>

definition sw_event :: "int \<Rightarrow> 32 word \<Rightarrow> input_event" where
  "sw_event code v = \<lparr>ev_type = word_of_int EV_SW, ev_code = word_of_int code, ev_value = v\<rparr>"

definition syn_event :: "int \<Rightarrow> input_event" where
  "syn_event code = \<lparr>ev_type = word_of_int EV_SYN, ev_code = word_of_int code, ev_value = 0\<rparr>"

text \<open>
  What libevdev delivers when the kernel drops events after a headphone insertion: the
  insertion itself; \<^verbatim>\<open>SYN_DROPPED\<close> with the status that asks for a resynchronisation; then,
  each with that status, the events of the snapshot (headphone 1, microphone 1) and the
  \<^verbatim>\<open>SYN_REPORT\<close> that closes it.
\<close>

definition resync_stream :: "read_result list" where
  "resync_stream =
     [(LIBEVDEV_READ_STATUS_SUCCESS, sw_event SW_HEADPHONE_INSERT 1),
      (LIBEVDEV_READ_STATUS_SYNC, syn_event SYN_DROPPED),
      (LIBEVDEV_READ_STATUS_SYNC, sw_event SW_HEADPHONE_INSERT 1),
      (LIBEVDEV_READ_STATUS_SYNC, sw_event SW_MICROPHONE_INSERT 1),
      (LIBEVDEV_READ_STATUS_SYNC, syn_event SYN_REPORT)]"

text \<open>
  A system with six entries in \<^verbatim>\<open>/dev/input\<close>: \<^verbatim>\<open>event0\<close> cannot be opened, no context
  can be built on \<^verbatim>\<open>event1\<close>, \<^verbatim>\<open>event2\<close> is a keyboard, \<^verbatim>\<open>event3\<close> and \<^verbatim>\<open>event4\<close> both
  have the headphone switch. On \<^verbatim>\<open>event3\<close> the cached headphone value is 0, the cached
  microphone value is 1, and there is no line-out switch. The card has all three ports.
\<close>

definition sample_dev :: libevdev where
  "sample_dev = \<lparr>dev_fd = 6,
     dev_values = [((EV_SW, SW_HEADPHONE_INSERT), 0), ((EV_SW, SW_MICROPHONE_INSERT), 1)]\<rparr>"

definition sample_env :: env where
  "sample_env =
     \<lparr>dir_entries = Some [''mouse0'', ''event0'', ''event1'', ''event2'', ''event3'', ''event4''],
      versionsort = (\<lambda>names. names),
      open_nonblock = (\<lambda>fname.
        if fname = ''/dev/input/event1'' then 4
        else if fname = ''/dev/input/event2'' then 5
        else if fname = ''/dev/input/event3'' then 6
        else if fname = ''/dev/input/event4'' then 7
        else - 1),
      libevdev_new_from_fd = (\<lambda>fname fd.
        if fd = 5 then Inr \<lparr>dev_fd = 5, dev_values = [((1, 116), 0)]\<rparr>
        else if fd = 6 then Inr sample_dev
        else if fd = 7 then Inr \<lparr>dev_fd = 7, dev_values = [((EV_SW, SW_HEADPHONE_INSERT), 1)]\<rparr>
        else Inl 25),
      io_new = (\<lambda>fd. Some (Io_event fd))\<rparr>"

definition sample_world :: world where
  "sample_world =
     \<lparr>ports = [''output-wired_headphone'' \<mapsto> PA_AVAILABLE_UNKNOWN,
               ''output-wired_headset'' \<mapsto> PA_AVAILABLE_UNKNOWN,
               ''input-wired_headset'' \<mapsto> PA_AVAILABLE_UNKNOWN],
      calls = []\<rparr>"

text \<open>
  A system where every descriptor is number 4, free again each time the selector has
  closed it: \<^verbatim>\<open>event0\<close> cannot be opened, no context can be built on \<^verbatim>\<open>event1\<close>,
  \<^verbatim>\<open>event2\<close> is a keyboard and \<^verbatim>\<open>event3\<close> has the headphone switch.
\<close>

definition reuse_env :: env where
  "reuse_env =
     \<lparr>dir_entries = Some [''event0'', ''event1'', ''event2'', ''event3''],
      versionsort = (\<lambda>names. names),
      open_nonblock = (\<lambda>fname. if fname = ''/dev/input/event0'' then - 1 else 4),
      libevdev_new_from_fd = (\<lambda>fname fd.
        if fname = ''/dev/input/event2'' then Inr \<lparr>dev_fd = fd, dev_values = [((1, 116), 0)]\<rparr>
        else if fname = ''/dev/input/event3''
        then Inr \<lparr>dev_fd = fd, dev_values = [((EV_SW, SW_HEADPHONE_INSERT), 1)]\<rparr>
        else Inl 25),
      io_new = (\<lambda>fd. Some (Io_event fd))\<rparr>"

text \<open>
  The sample system with a directory that holds no device with the headphone switch.
\<close>

definition no_switch_env :: env where
  "no_switch_env = sample_env\<lparr>dir_entries := Some [''mouse0'', ''event0'', ''event1'', ''event2'']\<rparr>"

section \<open>Properties\<close>

lemmas const_defs = EAGAIN_def EV_SYN_def EV_SW_def SYN_REPORT_def SYN_DROPPED_def
  SW_HEADPHONE_INSERT_def SW_MICROPHONE_INSERT_def SW_LINEOUT_INSERT_def
  LIBEVDEV_READ_STATUS_SUCCESS_def LIBEVDEV_READ_STATUS_SYNC_def

subsection \<open>Port notification\<close>

lemma set_available_dom:
  "ports w name = Some p \<Longrightarrow> dom (ports (pa_device_port_set_available name a w)) = dom (ports w)"
  by (auto simp: pa_device_port_set_available_def)

lemma set_ports_available_dom:
  "dom (ports (set_ports_available names a w)) = dom (ports w)"
  by (induction names arbitrary: w) (simp_all add: set_available_dom split: option.splits)

lemma set_ports_available_calls:
  "calls (set_ports_available names a w) =
     calls w @ map (\<lambda>n. Set_available n a) (filter (\<lambda>n. n \<in> dom (ports w)) names)"
proof (induction names arbitrary: w)
  case Nil
  show ?case by simp
next
  case (Cons name names)
  show ?case
  proof (cases "ports w name")
    case None
    then show ?thesis by (simp add: Cons.IH domIff)
  next
    case (Some p)
    have "calls (pa_device_port_set_available name a w) = calls w @ [Set_available name a]"
      by (simp add: pa_device_port_set_available_def)
    moreover have "name \<in> dom (ports w)"
      using Some by (simp add: domIff)
    ultimately show ?thesis
      using Some by (simp add: Cons.IH set_available_dom [OF Some])
  qed
qed

lemma set_ports_available_ports:
  "ports (set_ports_available names a w) n =
     (if n \<in> set names \<and> ports w n \<noteq> None then Some a else ports w n)"
  by (induction names arbitrary: w)
     (auto simp: pa_device_port_set_available_def split: option.splits)

text \<open>
  C2. Whatever the three switch bits are, the availability computed by \<^verbatim>\<open>notify_ports\<close>
  for the headphone port is "yes" exactly when (headphone or line-out) and not microphone,
  and for the headset ports exactly when (headphone or line-out) and microphone; these
  are the values recorded for the run and written to every port of the class that the
  table holds, and nothing else in the table changes. The three literal cases
  (true, false, false), (true, true, false) and (false, true, false), in the order
  headphone, microphone, line-out, give (yes, no), (no, yes) and (no, no).
\<close>

theorem availability_policy:
  "(has_headphone u = PA_AVAILABLE_YES) =
     ((sw_headphone_insert u \<or> sw_lineout_insert u) \<and> \<not> sw_microphone_insert u)
   \<and> (has_headphone u = PA_AVAILABLE_NO) =
     (\<not> ((sw_headphone_insert u \<or> sw_lineout_insert u) \<and> \<not> sw_microphone_insert u))
   \<and> (has_headset u = PA_AVAILABLE_YES) =
     ((sw_headphone_insert u \<or> sw_lineout_insert u) \<and> sw_microphone_insert u)
   \<and> (has_headset u = PA_AVAILABLE_NO) =
     (\<not> ((sw_headphone_insert u \<or> sw_lineout_insert u) \<and> sw_microphone_insert u))
   \<and> calls (notify_ports u w) =
       calls w @ Notify_ports (has_headphone u) (has_headset u) #
         map (\<lambda>n. Set_available n (has_headphone u))
           (filter (\<lambda>n. n \<in> dom (ports w)) headphone_ports) @
         map (\<lambda>n. Set_available n (has_headset u))
           (filter (\<lambda>n. n \<in> dom (ports w)) headset_ports)
   \<and> ports (notify_ports u w) n =
       (if ports w n = None then None
        else if n \<in> set headphone_ports then Some (has_headphone u)
        else if n \<in> set headset_ports then Some (has_headset u)
        else ports w n)
   \<and> has_headphone (u\<lparr>sw_headphone_insert := True, sw_microphone_insert := False,
                       sw_lineout_insert := False\<rparr>) = PA_AVAILABLE_YES
   \<and> has_headset (u\<lparr>sw_headphone_insert := True, sw_microphone_insert := False,
                     sw_lineout_insert := False\<rparr>) = PA_AVAILABLE_NO
   \<and> has_headphone (u\<lparr>sw_headphone_insert := True, sw_microphone_insert := True,
                       sw_lineout_insert := False\<rparr>) = PA_AVAILABLE_NO
   \<and> has_headset (u\<lparr>sw_headphone_insert := True, sw_microphone_insert := True,
                     sw_lineout_insert := False\<rparr>) = PA_AVAILABLE_YES
   \<and> has_headphone (u\<lparr>sw_headphone_insert := False, sw_microphone_insert := True,
                       sw_lineout_insert := False\<rparr>) = PA_AVAILABLE_NO
   \<and> has_headset (u\<lparr>sw_headphone_insert := False, sw_microphone_insert := True,
                     sw_lineout_insert := False\<rparr>) = PA_AVAILABLE_NO"
proof -
  have pol: "(has_headphone u = PA_AVAILABLE_YES) =
     ((sw_headphone_insert u \<or> sw_lineout_insert u) \<and> \<not> sw_microphone_insert u)"
    "(has_headphone u = PA_AVAILABLE_NO) =
     (\<not> ((sw_headphone_insert u \<or> sw_lineout_insert u) \<and> \<not> sw_microphone_insert u))"
    "(has_headset u = PA_AVAILABLE_YES) =
     ((sw_headphone_insert u \<or> sw_lineout_insert u) \<and> sw_microphone_insert u)"
    "(has_headset u = PA_AVAILABLE_NO) =
     (\<not> ((sw_headphone_insert u \<or> sw_lineout_insert u) \<and> sw_microphone_insert u))"
    by (simp_all add: has_headphone_def has_headset_def)
  have tr: "calls (notify_ports u w) =
       calls w @ Notify_ports (has_headphone u) (has_headset u) #
         map (\<lambda>n. Set_available n (has_headphone u))
           (filter (\<lambda>n. n \<in> dom (ports w)) headphone_ports) @
         map (\<lambda>n. Set_available n (has_headset u))
           (filter (\<lambda>n. n \<in> dom (ports w)) headset_ports)"
    by (simp add: notify_ports_def Let_def set_ports_available_calls
          set_ports_available_dom)
  have ps: "ports (notify_ports u w) n =
       (if ports w n = None then None
        else if n \<in> set headphone_ports then Some (has_headphone u)
        else if n \<in> set headset_ports then Some (has_headset u)
        else ports w n)"
  proof -
    have "n \<in> set headphone_ports \<Longrightarrow> n \<notin> set headset_ports"
      by (auto simp: headphone_ports_def headset_ports_def)
    then show ?thesis
      by (auto simp: notify_ports_def Let_def set_ports_available_ports)
  qed
  have lit: "has_headphone (u\<lparr>sw_headphone_insert := True, sw_microphone_insert := False,
                       sw_lineout_insert := False\<rparr>) = PA_AVAILABLE_YES"
   "has_headset (u\<lparr>sw_headphone_insert := True, sw_microphone_insert := False,
                     sw_lineout_insert := False\<rparr>) = PA_AVAILABLE_NO"
   "has_headphone (u\<lparr>sw_headphone_insert := True, sw_microphone_insert := True,
                       sw_lineout_insert := False\<rparr>) = PA_AVAILABLE_NO"
   "has_headset (u\<lparr>sw_headphone_insert := True, sw_microphone_insert := True,
                     sw_lineout_insert := False\<rparr>) = PA_AVAILABLE_YES"
   "has_headphone (u\<lparr>sw_headphone_insert := False, sw_microphone_insert := True,
                       sw_lineout_insert := False\<rparr>) = PA_AVAILABLE_NO"
   "has_headset (u\<lparr>sw_headphone_insert := False, sw_microphone_insert := True,
                     sw_lineout_insert := False\<rparr>) = PA_AVAILABLE_NO"
    by (simp_all add: has_headphone_def has_headset_def)
  from pol tr ps lit show ?thesis by blast
qed

text \<open>
  C3. For every combination of the switch bits the pair of decisions is one of
  (no, no), (yes, no), (no, yes): the two are never "yes" together.
\<close>

theorem availability_exclusive:
  "(has_headphone u, has_headset u) \<in>
     {(PA_AVAILABLE_NO, PA_AVAILABLE_NO), (PA_AVAILABLE_YES, PA_AVAILABLE_NO),
      (PA_AVAILABLE_NO, PA_AVAILABLE_YES)}
   \<and> \<not> (has_headphone u = PA_AVAILABLE_YES \<and> has_headset u = PA_AVAILABLE_YES)"
  by (simp add: has_headphone_def has_headset_def)


lemma notify_runs_append: "notify_runs (xs @ ys) = notify_runs xs @ notify_runs ys"
  by (induction xs rule: notify_runs.induct) simp_all

lemma notify_runs_set_available [simp]:
  "notify_runs (map (\<lambda>n. Set_available n a) names) = []"
  by (induction names) simp_all

lemma notify_runs_notify_ports:
  "notify_runs (calls (notify_ports u w)) =
     notify_runs (calls w) @ [(has_headphone u, has_headset u)]"
  by (simp add: notify_ports_def Let_def set_ports_available_calls notify_runs_append)

lemma io_frees_append: "io_frees (xs @ ys) = io_frees xs @ io_frees ys"
  by (induction xs rule: io_frees.induct) simp_all

lemma io_frees_set_available [simp]:
  "io_frees (map (\<lambda>n. Set_available n a) names) = []"
  by (induction names) simp_all

lemma io_frees_notify_ports: "io_frees (calls (notify_ports u w)) = io_frees (calls w)"
  by (simp add: notify_ports_def Let_def set_ports_available_calls io_frees_append)

subsection \<open>Events\<close>

text \<open>
  C8. A switch event with one of the three known codes stores its value, read as a
  boolean, in the bit of that code and leaves the two other switch bits as they were; a switch event with any other code changes nothing at all; an event of
  another type leaves the monitor unchanged; the handles are never touched. The world
  changes only at a \<^verbatim>\<open>SYN_REPORT\<close> event, where \<^verbatim>\<open>notify_ports\<close> runs once; no other event
  makes it run.
\<close>

theorem process_event_frame:
  "evdev_dev (fst (process_event ev u w)) = evdev_dev u
   \<and> event (fst (process_event ev u w)) = event u
   \<and> (uint (ev_type ev) = EV_SW \<and> uint (ev_code ev) = SW_HEADPHONE_INSERT \<longrightarrow>
        sw_microphone_insert (fst (process_event ev u w)) = sw_microphone_insert u
        \<and> sw_lineout_insert (fst (process_event ev u w)) = sw_lineout_insert u)
   \<and> (uint (ev_type ev) = EV_SW \<and> uint (ev_code ev) = SW_MICROPHONE_INSERT \<longrightarrow>
        sw_headphone_insert (fst (process_event ev u w)) = sw_headphone_insert u
        \<and> sw_lineout_insert (fst (process_event ev u w)) = sw_lineout_insert u)
   \<and> (uint (ev_type ev) = EV_SW \<and> uint (ev_code ev) = SW_LINEOUT_INSERT \<longrightarrow>
        sw_headphone_insert (fst (process_event ev u w)) = sw_headphone_insert u
        \<and> sw_microphone_insert (fst (process_event ev u w)) = sw_microphone_insert u)
   \<and> (uint (ev_type ev) = EV_SW \<and> uint (ev_code ev) = SW_HEADPHONE_INSERT \<longrightarrow>
        fst (process_event ev u w) = u\<lparr>sw_headphone_insert := (ev_value ev \<noteq> 0)\<rparr>)
   \<and> (uint (ev_type ev) = EV_SW \<and> uint (ev_code ev) = SW_MICROPHONE_INSERT \<longrightarrow>
        fst (process_event ev u w) = u\<lparr>sw_microphone_insert := (ev_value ev \<noteq> 0)\<rparr>)
   \<and> (uint (ev_type ev) = EV_SW \<and> uint (ev_code ev) = SW_LINEOUT_INSERT \<longrightarrow>
        fst (process_event ev u w) = u\<lparr>sw_lineout_insert := (ev_value ev \<noteq> 0)\<rparr>)
   \<and> (uint (ev_type ev) = EV_SW
        \<and> uint (ev_code ev) \<notin> {SW_HEADPHONE_INSERT, SW_MICROPHONE_INSERT, SW_LINEOUT_INSERT} \<longrightarrow>
        process_event ev u w = (u, w))
   \<and> (uint (ev_type ev) \<noteq> EV_SW \<longrightarrow> fst (process_event ev u w) = u)
   \<and> snd (process_event ev u w) =
       (if uint (ev_type ev) = EV_SYN \<and> uint (ev_code ev) = SYN_REPORT
        then notify_ports u w else w)
   \<and> notify_runs (calls (snd (process_event ev u w))) =
       notify_runs (calls w) @
       (if uint (ev_type ev) = EV_SYN \<and> uint (ev_code ev) = SYN_REPORT
        then [(has_headphone u, has_headset u)] else [])"
  by (simp add: process_event_def const_defs notify_runs_notify_ports)

theorem process_event_frame_witness:
  "process_event (sw_event 9 1) pa_xnew0 \<lparr>ports = Map.empty, calls = []\<rparr> =
     (pa_xnew0, \<lparr>ports = Map.empty, calls = []\<rparr>)
   \<and> fst (process_event (sw_event SW_HEADPHONE_INSERT 1) pa_xnew0
         \<lparr>ports = Map.empty, calls = []\<rparr>) =
       pa_xnew0\<lparr>sw_headphone_insert := True\<rparr>
   \<and> fst (process_event (sw_event SW_MICROPHONE_INSERT 0)
         (pa_xnew0\<lparr>sw_microphone_insert := True, sw_lineout_insert := True\<rparr>)
         \<lparr>ports = Map.empty, calls = []\<rparr>) =
       pa_xnew0\<lparr>sw_microphone_insert := False, sw_lineout_insert := True\<rparr>
   \<and> fst (process_event (sw_event SW_LINEOUT_INSERT 1) pa_xnew0
         \<lparr>ports = Map.empty, calls = []\<rparr>) =
       pa_xnew0\<lparr>sw_lineout_insert := True\<rparr>
   \<and> sw_microphone_insert (fst (process_event (sw_event SW_HEADPHONE_INSERT 1) pa_xnew0
         \<lparr>ports = Map.empty, calls = []\<rparr>)) = False
   \<and> sw_lineout_insert (fst (process_event (sw_event SW_HEADPHONE_INSERT 1) pa_xnew0
         \<lparr>ports = Map.empty, calls = []\<rparr>)) = False
   \<and> fst (process_event (syn_event SYN_REPORT) pa_xnew0 \<lparr>ports = Map.empty, calls = []\<rparr>) =
       pa_xnew0"
  using process_event_frame [of "sw_event 9 1" pa_xnew0 "\<lparr>ports = Map.empty, calls = []\<rparr>"]
    process_event_frame [of "sw_event SW_HEADPHONE_INSERT 1" pa_xnew0
      "\<lparr>ports = Map.empty, calls = []\<rparr>"]
    process_event_frame [of "sw_event SW_MICROPHONE_INSERT 0"
      "pa_xnew0\<lparr>sw_microphone_insert := True, sw_lineout_insert := True\<rparr>"
      "\<lparr>ports = Map.empty, calls = []\<rparr>"]
    process_event_frame [of "sw_event SW_LINEOUT_INSERT 1" pa_xnew0
      "\<lparr>ports = Map.empty, calls = []\<rparr>"]
    process_event_frame [of "syn_event SYN_REPORT" pa_xnew0
      "\<lparr>ports = Map.empty, calls = []\<rparr>"]
  by (simp add: sw_event_def syn_event_def const_defs pa_xnew0_def)

text \<open>
  C10. For a switch event with a known code the switch bit becomes true exactly when the
  value of the event is not zero: 2 and -1 record "present" as 1 does.
\<close>

theorem nonzero_is_present:
  "(uint (ev_type ev) = EV_SW \<and> uint (ev_code ev) = SW_HEADPHONE_INSERT \<longrightarrow>
      sw_headphone_insert (fst (process_event ev u w)) = (ev_value ev \<noteq> 0))
   \<and> (uint (ev_type ev) = EV_SW \<and> uint (ev_code ev) = SW_MICROPHONE_INSERT \<longrightarrow>
      sw_microphone_insert (fst (process_event ev u w)) = (ev_value ev \<noteq> 0))
   \<and> (uint (ev_type ev) = EV_SW \<and> uint (ev_code ev) = SW_LINEOUT_INSERT \<longrightarrow>
      sw_lineout_insert (fst (process_event ev u w)) = (ev_value ev \<noteq> 0))"
  by (simp add: process_event_def const_defs)

theorem nonzero_is_present_witness:
  "sw_headphone_insert (fst (process_event (sw_event SW_HEADPHONE_INSERT 2) pa_xnew0
      \<lparr>ports = Map.empty, calls = []\<rparr>))
   \<and> sw_microphone_insert (fst (process_event (sw_event SW_MICROPHONE_INSERT (- 1)) pa_xnew0
      \<lparr>ports = Map.empty, calls = []\<rparr>))
   \<and> \<not> sw_lineout_insert (fst (process_event (sw_event SW_LINEOUT_INSERT 0)
      (pa_xnew0\<lparr>sw_lineout_insert := True\<rparr>) \<lparr>ports = Map.empty, calls = []\<rparr>))"
  using nonzero_is_present [of "sw_event SW_HEADPHONE_INSERT 2" pa_xnew0
      "\<lparr>ports = Map.empty, calls = []\<rparr>"]
    nonzero_is_present [of "sw_event SW_MICROPHONE_INSERT (- 1)" pa_xnew0
      "\<lparr>ports = Map.empty, calls = []\<rparr>"]
    nonzero_is_present [of "sw_event SW_LINEOUT_INSERT 0" "pa_xnew0\<lparr>sw_lineout_insert := True\<rparr>"
      "\<lparr>ports = Map.empty, calls = []\<rparr>"]
  by (simp add: sw_event_def const_defs)



subsection \<open>The drain loop\<close>

declare evdev_cb_loop.simps [simp del]

lemma process_event_event: "event (fst (process_event ev u w)) = event u"
  by (simp add: process_event_def)

lemma process_event_io_frees:
  "io_frees (calls (snd (process_event ev u w))) = io_frees (calls w)"
  by (simp add: process_event_def io_frees_notify_ports)

lemma loop_Nil:
  "evdev_cb_loop flags [] u w =
     (if flags = LIBEVDEV_READ_FLAG_SYNC
      then ([], u, w\<lparr>calls := calls w @ [Libevdev_next_event LIBEVDEV_READ_FLAG_SYNC,
                                            Libevdev_next_event LIBEVDEV_READ_FLAG_NORMAL]\<rparr>)
      else ([], u, w\<lparr>calls := calls w @ [Libevdev_next_event flags]\<rparr>))"
  by (simp add: evdev_cb_loop.simps [of _ "[]"] libevdev_next_event_def)

lemma loop_Cons:
  "evdev_cb_loop flags ((err, ev) # q) u w =
     (let w1 = w\<lparr>calls := calls w @ [Libevdev_next_event flags]\<rparr> in
      if err = - EAGAIN then
        (if flags = LIBEVDEV_READ_FLAG_SYNC
         then evdev_cb_loop LIBEVDEV_READ_FLAG_NORMAL q u w1
         else (q, u, w1))
      else if err = LIBEVDEV_READ_STATUS_SYNC \<and> flags = LIBEVDEV_READ_FLAG_NORMAL then
        evdev_cb_loop LIBEVDEV_READ_FLAG_SYNC q u w1
      else if err \<noteq> LIBEVDEV_READ_STATUS_SYNC \<and> err < 0 then (q, u, w1)
      else evdev_cb_loop flags q (fst (process_event ev u w1)) (snd (process_event ev u w1)))"
  by (subst evdev_cb_loop.simps)
     (simp add: libevdev_next_event_def Let_def split: prod.splits)

lemma evdev_cb_loop_keeps_registration:
  "event (fst (snd (evdev_cb_loop flags q u w))) = event u
   \<and> io_frees (calls (snd (snd (evdev_cb_loop flags q u w)))) = io_frees (calls w)"
proof (induction q arbitrary: flags u w)
  case Nil
  show ?case by (simp add: loop_Nil io_frees_append)
next
  case (Cons r q)
  obtain err ev where r: "r = (err, ev)" by (cases r)
  define w1 where "w1 = w\<lparr>calls := calls w @ [Libevdev_next_event flags]\<rparr>"
  have w1: "io_frees (calls w1) = io_frees (calls w)"
    by (simp add: w1_def io_frees_append)
  show ?case
    unfolding r loop_Cons Let_def w1_def [symmetric]
    by (simp add: Cons.IH process_event_event process_event_io_frees w1)
qed

text \<open>
  C1. The loop follows the three-outcome protocol, whatever is still to come in the
  script: \<^verbatim>\<open>-EAGAIN\<close> in normal mode ends the drain, leaving the rest unread; in sync mode it
  switches back to normal mode and reads on; the sync status in normal mode switches to
  sync mode and reads on, without looking at the event; in sync mode the event is
  processed and reading goes on in sync mode; any other negative code ends the drain.
  With nothing buffered the drain ends at its first read. On every path the registration
  stays in the monitor and \<^verbatim>\<open>io_free\<close> is not called.
\<close>

theorem drain_protocol:
  "evdev_cb_loop LIBEVDEV_READ_FLAG_NORMAL ((- EAGAIN, ev) # q) u w =
     (q, u, w\<lparr>calls := calls w @ [Libevdev_next_event LIBEVDEV_READ_FLAG_NORMAL]\<rparr>)
   \<and> evdev_cb_loop LIBEVDEV_READ_FLAG_SYNC ((- EAGAIN, ev) # q) u w =
       evdev_cb_loop LIBEVDEV_READ_FLAG_NORMAL q u
         (w\<lparr>calls := calls w @ [Libevdev_next_event LIBEVDEV_READ_FLAG_SYNC]\<rparr>)
   \<and> evdev_cb_loop LIBEVDEV_READ_FLAG_NORMAL ((LIBEVDEV_READ_STATUS_SYNC, ev) # q) u w =
       evdev_cb_loop LIBEVDEV_READ_FLAG_SYNC q u
         (w\<lparr>calls := calls w @ [Libevdev_next_event LIBEVDEV_READ_FLAG_NORMAL]\<rparr>)
   \<and> evdev_cb_loop LIBEVDEV_READ_FLAG_SYNC ((LIBEVDEV_READ_STATUS_SYNC, ev) # q) u w =
       (case process_event ev u
               (w\<lparr>calls := calls w @ [Libevdev_next_event LIBEVDEV_READ_FLAG_SYNC]\<rparr>) of
          (u', w') \<Rightarrow> evdev_cb_loop LIBEVDEV_READ_FLAG_SYNC q u' w')
   \<and> (err < 0 \<and> err \<noteq> - EAGAIN \<longrightarrow>
        evdev_cb_loop flags ((err, ev) # q) u w =
          (q, u, w\<lparr>calls := calls w @ [Libevdev_next_event flags]\<rparr>))
   \<and> evdev_cb_loop LIBEVDEV_READ_FLAG_NORMAL [] u w =
       ([], u, w\<lparr>calls := calls w @ [Libevdev_next_event LIBEVDEV_READ_FLAG_NORMAL]\<rparr>)
   \<and> event (fst (snd (evdev_cb_loop flags q u w))) = event u
   \<and> io_frees (calls (snd (snd (evdev_cb_loop flags q u w)))) = io_frees (calls w)"
proof -
  have "err < 0 \<Longrightarrow> err \<noteq> LIBEVDEV_READ_STATUS_SYNC"
    by (simp add: LIBEVDEV_READ_STATUS_SYNC_def)
  moreover have "LIBEVDEV_READ_STATUS_SYNC \<noteq> - EAGAIN"
    by (simp add: const_defs)
  ultimately show ?thesis
    using evdev_cb_loop_keeps_registration [of flags q u w]
    by (simp add: loop_Cons loop_Nil Let_def split: prod.splits)
qed

theorem drain_protocol_witness:
  "evdev_cb_loop LIBEVDEV_READ_FLAG_SYNC
     [(- 19, sw_event SW_HEADPHONE_INSERT 1), (0, sw_event SW_HEADPHONE_INSERT 1)]
     (pa_xnew0\<lparr>event := Some (Io_event 7)\<rparr>) \<lparr>ports = Map.empty, calls = []\<rparr> =
   ([(0, sw_event SW_HEADPHONE_INSERT 1)], pa_xnew0\<lparr>event := Some (Io_event 7)\<rparr>,
    \<lparr>ports = Map.empty, calls = [Libevdev_next_event LIBEVDEV_READ_FLAG_SYNC]\<rparr>)"
  using drain_protocol [of "sw_event SW_HEADPHONE_INSERT 1" "[(0, sw_event SW_HEADPHONE_INSERT 1)]"
      "pa_xnew0\<lparr>event := Some (Io_event 7)\<rparr>" "\<lparr>ports = Map.empty, calls = []\<rparr>" "- 19"
      LIBEVDEV_READ_FLAG_SYNC]
  by (simp add: EAGAIN_def)

text \<open>
  C5. Draining the stream \<open>resync_stream\<close> from any monitor and world consumes all of it,
  ends with the headphone and microphone bits set, and runs \<^verbatim>\<open>notify_ports\<close> exactly once:
  after the fifth read, which delivers \<^verbatim>\<open>SYN_REPORT\<close>, with the decisions (no, yes). The
  same stream without its last event runs it not at all.
\<close>

theorem resync_recovery:
  "evdev_cb resync_stream u w =
     ([], u\<lparr>sw_headphone_insert := True, sw_microphone_insert := True\<rparr>,
      (let w1 = w\<lparr>calls := calls w @
                  [Libevdev_next_event LIBEVDEV_READ_FLAG_NORMAL,
                   Libevdev_next_event LIBEVDEV_READ_FLAG_NORMAL,
                   Libevdev_next_event LIBEVDEV_READ_FLAG_SYNC,
                   Libevdev_next_event LIBEVDEV_READ_FLAG_SYNC,
                   Libevdev_next_event LIBEVDEV_READ_FLAG_SYNC]\<rparr>;
           w2 = notify_ports (u\<lparr>sw_headphone_insert := True, sw_microphone_insert := True\<rparr>) w1
       in w2\<lparr>calls := calls w2 @
                [Libevdev_next_event LIBEVDEV_READ_FLAG_SYNC,
                 Libevdev_next_event LIBEVDEV_READ_FLAG_NORMAL]\<rparr>))
   \<and> notify_runs (calls (snd (snd (evdev_cb resync_stream u w)))) =
       notify_runs (calls w) @ [(PA_AVAILABLE_NO, PA_AVAILABLE_YES)]
   \<and> notify_runs (calls (snd (snd (evdev_cb (butlast resync_stream) u w)))) =
       notify_runs (calls w)"
proof -
  have run: "evdev_cb resync_stream u w =
     ([], u\<lparr>sw_headphone_insert := True, sw_microphone_insert := True\<rparr>,
      (let w1 = w\<lparr>calls := calls w @
                  [Libevdev_next_event LIBEVDEV_READ_FLAG_NORMAL,
                   Libevdev_next_event LIBEVDEV_READ_FLAG_NORMAL,
                   Libevdev_next_event LIBEVDEV_READ_FLAG_SYNC,
                   Libevdev_next_event LIBEVDEV_READ_FLAG_SYNC,
                   Libevdev_next_event LIBEVDEV_READ_FLAG_SYNC]\<rparr>;
           w2 = notify_ports (u\<lparr>sw_headphone_insert := True, sw_microphone_insert := True\<rparr>) w1
       in w2\<lparr>calls := calls w2 @
                [Libevdev_next_event LIBEVDEV_READ_FLAG_SYNC,
                 Libevdev_next_event LIBEVDEV_READ_FLAG_NORMAL]\<rparr>))"
    by (simp add: evdev_cb_def resync_stream_def loop_Cons loop_Nil Let_def process_event_def
          sw_event_def syn_event_def const_defs)
  have one: "notify_runs (calls (snd (snd (evdev_cb resync_stream u w)))) =
       notify_runs (calls w) @ [(PA_AVAILABLE_NO, PA_AVAILABLE_YES)]"
    by (simp add: run Let_def notify_runs_append notify_runs_notify_ports
          has_headphone_def has_headset_def)
  have none: "notify_runs (calls (snd (snd (evdev_cb (butlast resync_stream) u w)))) =
       notify_runs (calls w)"
    by (simp add: evdev_cb_def resync_stream_def loop_Cons loop_Nil Let_def process_event_def
          sw_event_def syn_event_def const_defs notify_runs_append)
  from run one none show ?thesis by blast
qed

subsection \<open>Device selection\<close>

lemma opened_fds_append: "opened_fds (xs @ ys) = opened_fds xs @ opened_fds ys"
  by (induction xs rule: opened_fds.induct) simp_all

lemma closed_fds_append: "closed_fds (xs @ ys) = closed_fds xs @ closed_fds ys"
  by (induction xs rule: closed_fds.induct) simp_all

lemma freed_devs_append: "freed_devs (xs @ ys) = freed_devs xs @ freed_devs ys"
  by (induction xs rule: freed_devs.induct) simp_all

lemmas trace_append = opened_fds_append closed_fds_append freed_devs_append

lemma loop_step_qualifies:
  assumes "qualifies e n"
  shows "\<exists>tr. find_switch_evdev_loop e (n # rest) w =
            (candidate_dev e n, w\<lparr>calls := calls w @ tr\<rparr>)
          \<and> opened_fds tr = [candidate_fd e n] \<and> closed_fds tr = [] \<and> freed_devs tr = []"
proof -
  from assms obtain dev where dev: "candidate_dev e n = Some dev"
    and cap: "libevdev_has_event_code dev EV_SW SW_HEADPHONE_INSERT"
    by (auto simp: qualifies_def split: option.splits)
  from dev have fd: "\<not> candidate_fd e n < 0"
    and new: "libevdev_new_from_fd e (candidate_path n) (candidate_fd e n) = Inr dev"
    by (auto simp: candidate_dev_def split: if_splits sum.splits)
  let ?fname = "candidate_path n"
  have "find_switch_evdev_loop e (n # rest) w =
          (candidate_dev e n,
           w\<lparr>calls := calls w @ [Open ?fname (candidate_fd e n),
                                   Libevdev_new_from_fd (candidate_fd e n)]\<rparr>)"
    using fd new cap dev by (simp add: Let_def candidate_fd_def candidate_path_def)
  moreover have "opened_fds [Open ?fname (candidate_fd e n),
                   Libevdev_new_from_fd (candidate_fd e n)] = [candidate_fd e n]"
    using fd by simp
  ultimately show ?thesis by force
qed

lemma loop_step_skips:
  assumes "\<not> qualifies e n"
  shows "\<exists>tr. find_switch_evdev_loop e (n # rest) w =
            find_switch_evdev_loop e rest (w\<lparr>calls := calls w @ tr\<rparr>)
          \<and> opened_fds tr = (if 0 \<le> candidate_fd e n then [candidate_fd e n] else [])
          \<and> closed_fds tr = (if 0 \<le> candidate_fd e n then [candidate_fd e n] else [])
          \<and> freed_devs tr = (case candidate_dev e n of None \<Rightarrow> [] | Some dev \<Rightarrow> [dev])"
proof -
  let ?fname = "candidate_path n"
  let ?fd = "candidate_fd e n"
  consider (nofd) "?fd < 0"
    | (nodev) err where "\<not> ?fd < 0" "libevdev_new_from_fd e ?fname ?fd = Inl err"
    | (nocap) dev where "\<not> ?fd < 0" "libevdev_new_from_fd e ?fname ?fd = Inr dev"
    by (cases "libevdev_new_from_fd e ?fname ?fd") auto
  then show ?thesis
  proof cases
    case nofd
    then have "find_switch_evdev_loop e (n # rest) w =
        find_switch_evdev_loop e rest (w\<lparr>calls := calls w @ [Open ?fname ?fd]\<rparr>)"
      by (simp add: Let_def candidate_fd_def candidate_path_def)
    moreover have "candidate_dev e n = None"
      using nofd by (simp add: candidate_dev_def)
    ultimately show ?thesis using nofd by force
  next
    case nodev
    then have "find_switch_evdev_loop e (n # rest) w =
        find_switch_evdev_loop e rest
          (w\<lparr>calls := calls w @ [Open ?fname ?fd, Libevdev_new_from_fd ?fd, Close ?fd]\<rparr>)"
      by (simp add: Let_def candidate_fd_def candidate_path_def)
    moreover have "candidate_dev e n = None"
      using nodev by (simp add: candidate_dev_def)
    ultimately show ?thesis using nodev by force
  next
    case nocap
    then have dev: "candidate_dev e n = Some dev"
      by (simp add: candidate_dev_def)
    with assms have "\<not> libevdev_has_event_code dev EV_SW SW_HEADPHONE_INSERT"
      by (simp add: qualifies_def)
    with nocap have "find_switch_evdev_loop e (n # rest) w =
        find_switch_evdev_loop e rest
          (w\<lparr>calls := calls w @ [Open ?fname ?fd, Libevdev_new_from_fd ?fd,
                                  Libevdev_free dev, Close ?fd]\<rparr>)"
      by (simp add: Let_def candidate_fd_def candidate_path_def)
    then show ?thesis using nocap dev by force
  qed
qed

lemma find_switch_evdev_loop_correct:
  "fst (find_switch_evdev_loop e names w) =
     (case List.find (qualifies e) names of None \<Rightarrow> None | Some n \<Rightarrow> candidate_dev e n)
   \<and> ports (snd (find_switch_evdev_loop e names w)) = ports w
   \<and> opened_fds (calls (snd (find_switch_evdev_loop e names w))) =
       opened_fds (calls w) @
         map (candidate_fd e) (filter (\<lambda>n. 0 \<le> candidate_fd e n) (examined e names))
   \<and> closed_fds (calls (snd (find_switch_evdev_loop e names w))) =
       closed_fds (calls w) @
         map (candidate_fd e) (filter (\<lambda>n. 0 \<le> candidate_fd e n) (skipped e names))
   \<and> freed_devs (calls (snd (find_switch_evdev_loop e names w))) =
       freed_devs (calls w) @ List.map_filter (candidate_dev e) (skipped e names)"
proof (induction names arbitrary: w)
  case Nil
  show ?case by (simp add: examined_def skipped_def List.map_filter_simps)
next
  case (Cons n rest)
  show ?case
  proof (cases "qualifies e n")
    case True
    from loop_step_qualifies [OF True, of rest w] obtain tr where
      "find_switch_evdev_loop e (n # rest) w = (candidate_dev e n, w\<lparr>calls := calls w @ tr\<rparr>)"
      "opened_fds tr = [candidate_fd e n]" "closed_fds tr = []" "freed_devs tr = []"
      by blast
    moreover have "0 \<le> candidate_fd e n"
      using True by (auto simp: qualifies_def candidate_dev_def split: if_splits)
    ultimately show ?thesis
      using True
      by (simp add: examined_def skipped_def trace_append List.map_filter_simps)
  next
    case False
    from loop_step_skips [OF False, of rest w] obtain tr where
      step: "find_switch_evdev_loop e (n # rest) w =
        find_switch_evdev_loop e rest (w\<lparr>calls := calls w @ tr\<rparr>)"
      and tr: "opened_fds tr = (if 0 \<le> candidate_fd e n then [candidate_fd e n] else [])"
        "closed_fds tr = (if 0 \<le> candidate_fd e n then [candidate_fd e n] else [])"
        "freed_devs tr = (case candidate_dev e n of None \<Rightarrow> [] | Some dev \<Rightarrow> [dev])"
      by blast
    show ?thesis
      unfolding step
      using False tr
      by (simp add: Cons.IH examined_def skipped_def trace_append List.map_filter_simps
            split: option.splits)
  qed
qed

text \<open>
  C6. When the directory can be enumerated, the selector returns the decoding context of
  the first candidate, in the order of enumeration, that opens, yields a context and
  reports the headphone switch, and nothing when there is none. Of the candidates
  examined, those before the winner that opened are closed again, in order, and the
  contexts built on them are released; the winner's descriptor stays open and no
  candidate after the winner is opened. The port table is not touched. When the
  directory cannot be enumerated the selector does not return "no handle": it calls
  \<^verbatim>\<open>free\<close> on a pointer that was never assigned.
\<close>

theorem selector_first_match:
  "(dir_entries e = None \<longrightarrow> find_switch_evdev e w = (Inl Unassigned_free, w))
   \<and> (dir_entries e \<noteq> None \<longrightarrow>
        fst (find_switch_evdev e w) =
          Inr (case List.find (qualifies e) (candidates e) of
                 None \<Rightarrow> None
               | Some n \<Rightarrow> candidate_dev e n)
        \<and> ports (snd (find_switch_evdev e w)) = ports w
        \<and> opened_fds (calls (snd (find_switch_evdev e w))) =
            opened_fds (calls w) @
              map (candidate_fd e)
                (filter (\<lambda>n. 0 \<le> candidate_fd e n) (examined e (candidates e)))
        \<and> closed_fds (calls (snd (find_switch_evdev e w))) =
            closed_fds (calls w) @
              map (candidate_fd e)
                (filter (\<lambda>n. 0 \<le> candidate_fd e n) (skipped e (candidates e)))
        \<and> freed_devs (calls (snd (find_switch_evdev e w))) =
            freed_devs (calls w) @
              List.map_filter (candidate_dev e) (skipped e (candidates e)))"
proof (cases "dir_entries e")
  case None
  then show ?thesis
    by (simp add: find_switch_evdev_def scandir_def)
next
  case (Some names)
  then have "find_switch_evdev e w =
      (Inr (fst (find_switch_evdev_loop e (candidates e) w)),
       (snd (find_switch_evdev_loop e (candidates e) w))
         \<lparr>calls := calls (snd (find_switch_evdev_loop e (candidates e) w)) @
            [Free_namelist (candidates e)]\<rparr>)"
    by (simp add: find_switch_evdev_def scandir_def candidates_def split_beta)
  with Some show ?thesis
    using find_switch_evdev_loop_correct [of e "candidates e" w]
    by (simp add: trace_append)
qed

theorem selector_first_match_witness:
  "fst (find_switch_evdev reuse_env sample_world) =
     Inr (Some \<lparr>dev_fd = 4, dev_values = [((EV_SW, SW_HEADPHONE_INSERT), 1)]\<rparr>)
   \<and> opened_fds (calls (snd (find_switch_evdev reuse_env sample_world))) = [4, 4, 4]
   \<and> closed_fds (calls (snd (find_switch_evdev reuse_env sample_world))) = [4, 4]
   \<and> freed_devs (calls (snd (find_switch_evdev reuse_env sample_world))) =
       [\<lparr>dev_fd = 4, dev_values = [((1, 116), 0)]\<rparr>]
   \<and> find_switch_evdev (sample_env\<lparr>dir_entries := None\<rparr>) sample_world =
       (Inl Unassigned_free, sample_world)"
proof -
  have c: "candidates reuse_env = [''event0'', ''event1'', ''event2'', ''event3'']"
    by code_simp
  have d: "dir_entries reuse_env \<noteq> None"
    by (simp add: reuse_env_def)
  have fd: "map (candidate_fd reuse_env) (candidates reuse_env) = [- 1, 4, 4, 4]"
    by code_simp
  have dv: "map (candidate_dev reuse_env) (candidates reuse_env) =
      [None, None, Some \<lparr>dev_fd = 4, dev_values = [((1, 116), 0)]\<rparr>,
       Some \<lparr>dev_fd = 4, dev_values = [((EV_SW, SW_HEADPHONE_INSERT), 1)]\<rparr>]"
    by code_simp
  have q: "map (qualifies reuse_env) (candidates reuse_env) = [False, False, False, True]"
    by code_simp
  have w0: "calls sample_world = []"
    by (simp add: sample_world_def)
  have n: "dir_entries (sample_env\<lparr>dir_entries := None\<rparr>) = None"
    by simp
  show ?thesis
    using selector_first_match [of reuse_env sample_world]
      selector_first_match [of "sample_env\<lparr>dir_entries := None\<rparr>" sample_world]
      fd dv q d
    by (simp add: c w0 n examined_def skipped_def List.map_filter_simps)
qed

subsection \<open>Creation and destruction\<close>

lemma loop_notify_runs:
  "notify_runs (calls (snd (find_switch_evdev_loop e names w))) = notify_runs (calls w)"
  by (induction names arbitrary: w) (simp_all add: Let_def notify_runs_append split: sum.splits)

lemma loop_fetches:
  "filter is_fetch (calls (snd (find_switch_evdev_loop e names w))) = filter is_fetch (calls w)"
  by (induction names arbitrary: w) (simp_all add: Let_def split: sum.splits)

lemma find_switch_evdev_notify_runs:
  "notify_runs (calls (snd (find_switch_evdev e w))) = notify_runs (calls w)"
  by (simp add: find_switch_evdev_def loop_notify_runs notify_runs_append split_beta
        split: option.splits)

lemma find_switch_evdev_fetches:
  "filter is_fetch (calls (snd (find_switch_evdev e w))) = filter is_fetch (calls w)"
  by (simp add: find_switch_evdev_def loop_fetches split_beta split: option.splits)

lemma read_initial_switch_values_eq:
  assumes "evdev_dev u = Some dev"
  shows "read_initial_switch_values u w =
           Inr (synced dev u, notify_ports (synced dev u) (w\<lparr>calls := calls w @ initial_reads\<rparr>))"
  using assms
  by (simp add: read_initial_switch_values_def INIT_SW_def Let_def synced_def cached_switch_def
        initial_reads_def split: option.splits)

lemma pa_droid_extevdev_new_eq:
  assumes "fst (find_switch_evdev e w) = Inr (Some dev)"
    and "io_new e (libevdev_get_fd dev) = Some io"
  shows "pa_droid_extevdev_new e w =
           (Inr (Some (synced dev (pa_xnew0\<lparr>evdev_dev := Some dev, event := Some io\<rparr>))),
            notify_ports (synced dev (pa_xnew0\<lparr>evdev_dev := Some dev, event := Some io\<rparr>))
              ((snd (find_switch_evdev e w))
                 \<lparr>calls := calls (snd (find_switch_evdev e w)) @
                    Io_new (libevdev_get_fd dev) # initial_reads\<rparr>))"
proof -
  obtain w1 where f: "find_switch_evdev e w = (Inr (Some dev), w1)"
    using assms(1) by (cases "find_switch_evdev e w") simp
  have "read_initial_switch_values (pa_xnew0\<lparr>evdev_dev := Some dev, event := Some io\<rparr>)
          (w1\<lparr>calls := calls w1 @ [Io_new (libevdev_get_fd dev)]\<rparr>) =
        Inr (synced dev (pa_xnew0\<lparr>evdev_dev := Some dev, event := Some io\<rparr>),
             notify_ports (synced dev (pa_xnew0\<lparr>evdev_dev := Some dev, event := Some io\<rparr>))
               (w1\<lparr>calls := calls w1 @ Io_new (libevdev_get_fd dev) # initial_reads\<rparr>))"
    by (simp add: read_initial_switch_values_eq [of _ dev])
  then show ?thesis
    using assms(2) by (simp add: pa_droid_extevdev_new_def f Let_def)
qed


lemma filter_takeWhile_empty: "filter Q xs = [] \<Longrightarrow> filter Q (takeWhile P xs) = []"
  by (induction xs) (auto split: if_splits)

lemma takeWhile_until_io_new:
  "takeWhile (\<lambda>c. \<not> is_io_new c) (xs @ Io_new fd # ys) = takeWhile (\<lambda>c. \<not> is_io_new c) xs"
  by (induction xs) simp_all

lemma calls_notify_ports_prefix:
  "\<exists>tr. calls (notify_ports u w) = calls w @ tr"
  by (simp add: notify_ports_def Let_def set_ports_available_calls)

text \<open>
  C4, as the code has it. When the selector finds a device and the mainloop hands out a
  registration, creation calls \<^verbatim>\<open>io_new\<close> first and makes the three reads of the cached
  switch values directly after it, followed by one run of \<^verbatim>\<open>notify_ports\<close>; the selector
  itself reads no switch value. So in a trace without earlier reads the registration
  comes before every read of the initial synchronisation.
\<close>

theorem registration_then_initial_read:
  assumes "fst (find_switch_evdev e w) = Inr (Some dev)"
    and "io_new e (libevdev_get_fd dev) = Some io"
  shows "(\<exists>u'. pa_droid_extevdev_new e w =
            (Inr (Some u'),
             notify_ports u'
               ((snd (find_switch_evdev e w))
                  \<lparr>calls := calls (snd (find_switch_evdev e w)) @
                     Io_new (libevdev_get_fd dev) # initial_reads\<rparr>))
          \<and> event u' = Some io)
       \<and> filter is_fetch (calls (snd (find_switch_evdev e w))) = filter is_fetch (calls w)
       \<and> (filter is_fetch (calls w) = [] \<longrightarrow>
            registration_before_initial_read (calls (snd (pa_droid_extevdev_new e w))))"
proof -
  let ?w1 = "snd (find_switch_evdev e w)"
  let ?u = "synced dev (pa_xnew0\<lparr>evdev_dev := Some dev, event := Some io\<rparr>)"
  let ?w2 = "?w1\<lparr>calls := calls ?w1 @ Io_new (libevdev_get_fd dev) # initial_reads\<rparr>"
  have new: "pa_droid_extevdev_new e w = (Inr (Some ?u), notify_ports ?u ?w2)"
    by (rule pa_droid_extevdev_new_eq [OF assms])
  have ev: "event ?u = Some io"
    by (simp add: synced_def)
  have sel: "filter is_fetch (calls ?w1) = filter is_fetch (calls w)"
    by (rule find_switch_evdev_fetches)
  have ord: "registration_before_initial_read (calls (snd (pa_droid_extevdev_new e w)))"
    if "filter is_fetch (calls w) = []"
  proof -
    obtain tr where tr: "calls (notify_ports ?u ?w2) = calls ?w2 @ tr"
      using calls_notify_ports_prefix by blast
    have c: "calls (snd (pa_droid_extevdev_new e w)) =
               calls ?w1 @ Io_new (libevdev_get_fd dev) # (initial_reads @ tr)"
      by (simp add: new tr)
    have "takeWhile (\<lambda>c. \<not> is_io_new c) (calls (snd (pa_droid_extevdev_new e w))) =
            takeWhile (\<lambda>c. \<not> is_io_new c) (calls ?w1)"
      unfolding c by (rule takeWhile_until_io_new)
    moreover have "filter is_fetch (takeWhile (\<lambda>c. \<not> is_io_new c) (calls ?w1)) = []"
      using sel that by (simp add: filter_takeWhile_empty)
    moreover have "filter is_io_new (calls (snd (pa_droid_extevdev_new e w))) \<noteq> []"
      unfolding c by simp
    ultimately show ?thesis
      by (simp add: registration_before_initial_read_def)
  qed
  from new ev sel ord show ?thesis by auto
qed

theorem registration_then_initial_read_witness:
  "registration_before_initial_read
     (calls (snd (pa_droid_extevdev_new sample_env sample_world)))
   \<and> (\<exists>u'. pa_droid_extevdev_new sample_env sample_world =
         (Inr (Some u'),
          notify_ports u'
            ((snd (find_switch_evdev sample_env sample_world))
               \<lparr>calls := calls (snd (find_switch_evdev sample_env sample_world)) @
                  Io_new 6 # initial_reads\<rparr>))
         \<and> event u' = Some (Io_event 6))"
proof -
  have sel: "fst (find_switch_evdev sample_env sample_world) = Inr (Some sample_dev)"
    by code_simp
  have reg: "io_new sample_env (libevdev_get_fd sample_dev) = Some (Io_event 6)"
    by code_simp
  have fd: "libevdev_get_fd sample_dev = 6"
    by code_simp
  have w0: "filter is_fetch (calls sample_world) = []"
    by (simp add: sample_world_def)
  show ?thesis
    using registration_then_initial_read [OF sel reg] w0 fd by simp
qed

text \<open>
  C4, as it is stated, fails on the sample system: the reads of the initial
  synchronisation come after the registration, not before it.
\<close>

theorem initial_read_first_counterexample:
  "\<not> initial_read_before_registration
       (calls (snd (pa_droid_extevdev_new sample_env sample_world)))"
  by code_simp


text \<open>
  C7, as the code has it. The initial read sets each switch bit from the cached value of
  its code, false when the code is not supported, and then runs \<^verbatim>\<open>notify_ports\<close> once.
  A successful creation returns the monitor synchronised with the selected device and
  adds exactly one run of \<^verbatim>\<open>notify_ports\<close> to the trace, with the decisions for these
  bits. When the microphone bit is set and the two others are not, both decisions are
  "no": a microphone alone makes neither port class available.
\<close>

theorem initial_sync:
  "(evdev_dev u = Some dev \<longrightarrow>
      read_initial_switch_values u w =
        Inr (synced dev u, notify_ports (synced dev u) (w\<lparr>calls := calls w @ initial_reads\<rparr>)))
   \<and> (libevdev_fetch_event_value dev EV_SW code = None \<longrightarrow> \<not> cached_switch dev code)
   \<and> (libevdev_fetch_event_value dev EV_SW code = Some v \<longrightarrow> cached_switch dev code = (v \<noteq> 0))
   \<and> (fst (find_switch_evdev e w) = Inr (Some dev)
        \<and> io_new e (libevdev_get_fd dev) = Some io \<longrightarrow>
        fst (pa_droid_extevdev_new e w) =
          Inr (Some (synced dev (pa_xnew0\<lparr>evdev_dev := Some dev, event := Some io\<rparr>)))
        \<and> notify_runs (calls (snd (pa_droid_extevdev_new e w))) =
            notify_runs (calls w) @
              [(has_headphone (synced dev pa_xnew0), has_headset (synced dev pa_xnew0))])
   \<and> (cached_switch dev SW_MICROPHONE_INSERT \<and> \<not> cached_switch dev SW_HEADPHONE_INSERT
        \<and> \<not> cached_switch dev SW_LINEOUT_INSERT \<longrightarrow>
        has_headphone (synced dev u) = PA_AVAILABLE_NO
        \<and> has_headset (synced dev u) = PA_AVAILABLE_NO)"
proof -
  have a: "read_initial_switch_values u w =
        Inr (synced dev u, notify_ports (synced dev u) (w\<lparr>calls := calls w @ initial_reads\<rparr>))"
    if "evdev_dev u = Some dev"
    using that by (rule read_initial_switch_values_eq)
  have b: "\<not> cached_switch dev code" if "libevdev_fetch_event_value dev EV_SW code = None"
    using that by (simp add: cached_switch_def)
  have c: "cached_switch dev code = (v \<noteq> 0)"
    if "libevdev_fetch_event_value dev EV_SW code = Some v"
    using that by (simp add: cached_switch_def)
  have d: "fst (pa_droid_extevdev_new e w) =
          Inr (Some (synced dev (pa_xnew0\<lparr>evdev_dev := Some dev, event := Some io\<rparr>)))
        \<and> notify_runs (calls (snd (pa_droid_extevdev_new e w))) =
            notify_runs (calls w) @
              [(has_headphone (synced dev pa_xnew0), has_headset (synced dev pa_xnew0))]"
    if "fst (find_switch_evdev e w) = Inr (Some dev)"
      and "io_new e (libevdev_get_fd dev) = Some io"
  proof -
    have "notify_runs initial_reads = []"
      by (simp add: initial_reads_def)
    moreover have
      "has_headphone (synced dev (pa_xnew0\<lparr>evdev_dev := Some dev, event := Some io\<rparr>)) =
         has_headphone (synced dev pa_xnew0)"
      "has_headset (synced dev (pa_xnew0\<lparr>evdev_dev := Some dev, event := Some io\<rparr>)) =
         has_headset (synced dev pa_xnew0)"
      by (simp_all add: has_headphone_def has_headset_def synced_def)
    ultimately show ?thesis
      by (simp add: pa_droid_extevdev_new_eq [OF that] notify_runs_notify_ports
            notify_runs_append find_switch_evdev_notify_runs)
  qed
  have f: "has_headphone (synced dev u) = PA_AVAILABLE_NO
        \<and> has_headset (synced dev u) = PA_AVAILABLE_NO"
    if "cached_switch dev SW_MICROPHONE_INSERT \<and> \<not> cached_switch dev SW_HEADPHONE_INSERT
        \<and> \<not> cached_switch dev SW_LINEOUT_INSERT"
    using that by (simp add: has_headphone_def has_headset_def synced_def)
  from a b c d f show ?thesis by blast
qed

theorem initial_sync_witness:
  "fst (pa_droid_extevdev_new sample_env sample_world) =
     Inr (Some \<lparr>evdev_dev = Some sample_dev, event = Some (Io_event 6),
                sw_headphone_insert = False, sw_microphone_insert = True,
                sw_lineout_insert = False\<rparr>)
   \<and> notify_runs (calls (snd (pa_droid_extevdev_new sample_env sample_world))) =
       [(PA_AVAILABLE_NO, PA_AVAILABLE_NO)]"
proof -
  have sel: "fst (find_switch_evdev sample_env sample_world) = Inr (Some sample_dev)"
    by code_simp
  have reg: "io_new sample_env (libevdev_get_fd sample_dev) = Some (Io_event 6)"
    by code_simp
  have v: "libevdev_fetch_event_value sample_dev EV_SW SW_HEADPHONE_INSERT = Some 0"
    "libevdev_fetch_event_value sample_dev EV_SW SW_MICROPHONE_INSERT = Some 1"
    "libevdev_fetch_event_value sample_dev EV_SW SW_LINEOUT_INSERT = None"
    by code_simp+
  have w0: "calls sample_world = []"
    by (simp add: sample_world_def)
  have sw: "cached_switch sample_dev SW_MICROPHONE_INSERT"
    "\<not> cached_switch sample_dev SW_HEADPHONE_INSERT"
    "\<not> cached_switch sample_dev SW_LINEOUT_INSERT"
    using initial_sync [where dev = sample_dev and code = SW_MICROPHONE_INSERT and v = 1]
      initial_sync [where dev = sample_dev and code = SW_HEADPHONE_INSERT and v = 0]
      initial_sync [where dev = sample_dev and code = SW_LINEOUT_INSERT] v
    by simp_all
  show ?thesis
    using initial_sync [where u = pa_xnew0 and dev = sample_dev and e = sample_env
        and w = sample_world and io = "Io_event 6"]
      sel reg sw w0
    by (simp add: synced_def pa_xnew0_def)
qed

text \<open>
  C7, as it is stated, fails on the sample system: the selected device has the cached
  values microphone 1, headphone 0 and no line-out switch, and the one run of
  \<^verbatim>\<open>notify_ports\<close> during creation decides "no" for the headset ports.
\<close>

theorem headset_at_startup_counterexample:
  "libevdev_fetch_event_value sample_dev EV_SW SW_MICROPHONE_INSERT = Some 1
   \<and> libevdev_fetch_event_value sample_dev EV_SW SW_HEADPHONE_INSERT = Some 0
   \<and> libevdev_fetch_event_value sample_dev EV_SW SW_LINEOUT_INSERT = None
   \<and> evdev_dev (the (projr (fst (pa_droid_extevdev_new sample_env sample_world)))) =
       Some sample_dev
   \<and> map snd (notify_runs (calls (snd (pa_droid_extevdev_new sample_env sample_world)))) \<noteq>
       [PA_AVAILABLE_YES]
   \<and> notify_runs (calls (snd (pa_droid_extevdev_new sample_env sample_world))) =
       [(PA_AVAILABLE_NO, PA_AVAILABLE_NO)]"
  by code_simp

text \<open>
  C9. Destruction calls \<^verbatim>\<open>io_free\<close> only when the monitor holds a registration, and
  releases the decoding context and closes its descriptor only when the monitor holds a
  context; when it holds both, the order is \<^verbatim>\<open>io_free\<close>, \<^verbatim>\<open>libevdev_free\<close>, \<^verbatim>\<open>close\<close>. A
  creation whose selector enumerates the directory and returns no device destroys a
  monitor that holds neither: nothing is added to the selector's trace but the release
  of the monitor itself.
\<close>

theorem teardown_safety:
  "calls (pa_droid_extevdev_free u w) =
     calls w @
       (case event u of None \<Rightarrow> [] | Some io \<Rightarrow> [Io_free io]) @
       (case evdev_dev u of
          None \<Rightarrow> []
        | Some dev \<Rightarrow> [Libevdev_free dev, Close (libevdev_get_fd dev)]) @
       [Xfree]
   \<and> ports (pa_droid_extevdev_free u w) = ports w
   \<and> (event u = None \<longrightarrow>
        io_frees (calls (pa_droid_extevdev_free u w)) = io_frees (calls w))
   \<and> (evdev_dev u = None \<longrightarrow>
        closed_fds (calls (pa_droid_extevdev_free u w)) = closed_fds (calls w)
        \<and> freed_devs (calls (pa_droid_extevdev_free u w)) = freed_devs (calls w))
   \<and> (fst (find_switch_evdev e w) = Inr None \<longrightarrow>
        pa_droid_extevdev_new e w =
          (Inr None,
           (snd (find_switch_evdev e w))
             \<lparr>calls := calls (snd (find_switch_evdev e w)) @ [Xfree]\<rparr>))"
proof -
  have tr: "calls (pa_droid_extevdev_free u w) =
     calls w @
       (case event u of None \<Rightarrow> [] | Some io \<Rightarrow> [Io_free io]) @
       (case evdev_dev u of
          None \<Rightarrow> []
        | Some dev \<Rightarrow> [Libevdev_free dev, Close (libevdev_get_fd dev)]) @
       [Xfree]"
    by (simp add: pa_droid_extevdev_free_def Let_def split: option.splits)
  have ps: "ports (pa_droid_extevdev_free u w) = ports w"
    by (simp add: pa_droid_extevdev_free_def Let_def split: option.splits)
  have io: "io_frees (calls (pa_droid_extevdev_free u w)) = io_frees (calls w)"
    if "event u = None"
    using that by (simp add: tr io_frees_append split: option.splits)
  have fd: "closed_fds (calls (pa_droid_extevdev_free u w)) = closed_fds (calls w)
        \<and> freed_devs (calls (pa_droid_extevdev_free u w)) = freed_devs (calls w)"
    if "evdev_dev u = None"
    using that by (simp add: tr trace_append split: option.splits)
  have new: "pa_droid_extevdev_new e w =
          (Inr None,
           (snd (find_switch_evdev e w))
             \<lparr>calls := calls (snd (find_switch_evdev e w)) @ [Xfree]\<rparr>)"
    if none: "fst (find_switch_evdev e w) = Inr None"
  proof -
    obtain w1 where f: "find_switch_evdev e w = (Inr None, w1)"
      using none by (cases "find_switch_evdev e w") auto
    show ?thesis
      by (simp add: pa_droid_extevdev_new_def f pa_droid_extevdev_free_def pa_xnew0_def)
  qed
  from tr ps io fd new show ?thesis by blast
qed

theorem teardown_safety_witness:
  "fst (pa_droid_extevdev_new no_switch_env sample_world) = Inr None
   \<and> calls (snd (pa_droid_extevdev_new no_switch_env sample_world)) =
       [Open ''/dev/input/event0'' (- 1),
        Open ''/dev/input/event1'' 4, Libevdev_new_from_fd 4, Close 4,
        Open ''/dev/input/event2'' 5, Libevdev_new_from_fd 5,
        Libevdev_free \<lparr>dev_fd = 5, dev_values = [((1, 116), 0)]\<rparr>, Close 5,
        Free_namelist [''event0'', ''event1'', ''event2''],
        Xfree]
   \<and> calls (pa_droid_extevdev_free pa_xnew0 sample_world) = [Xfree]
   \<and> calls (pa_droid_extevdev_free
        (pa_xnew0\<lparr>evdev_dev := Some sample_dev, event := Some (Io_event 6)\<rparr>) sample_world) =
       [Io_free (Io_event 6), Libevdev_free sample_dev, Close 6, Xfree]"
proof -
  have sel: "fst (find_switch_evdev no_switch_env sample_world) = Inr None"
    by code_simp
  have tr: "calls (snd (find_switch_evdev no_switch_env sample_world)) =
       [Open ''/dev/input/event0'' (- 1),
        Open ''/dev/input/event1'' 4, Libevdev_new_from_fd 4, Close 4,
        Open ''/dev/input/event2'' 5, Libevdev_new_from_fd 5,
        Libevdev_free \<lparr>dev_fd = 5, dev_values = [((1, 116), 0)]\<rparr>, Close 5,
        Free_namelist [''event0'', ''event1'', ''event2'']]"
    by code_simp
  have w0: "calls sample_world = []"
    by (simp add: sample_world_def)
  have fd: "libevdev_get_fd sample_dev = 6"
    by (simp add: libevdev_get_fd_def sample_dev_def)
  show ?thesis
    using teardown_safety [of pa_xnew0 sample_world no_switch_env]
      teardown_safety [of "pa_xnew0\<lparr>evdev_dev := Some sample_dev, event := Some (Io_event 6)\<rparr>"
        sample_world]
    by (simp add: sel tr w0 fd pa_xnew0_def)
qed

end
